theory Spec2Isabelle
  imports Complex_Main "HOL-Library.AList" "HOL-Library.Multiset"
begin

section \<open>JavaScript strings and numbers\<close>

text \<open>
  A JavaScript string is the list of its UTF-16 code units, each a natural number.
  \<open>units\<close> turns a literal into that list.  Numbers are exact: marks are integers,
  quotients are rationals, and \<open>Math.round\<close> rounds half up.  The values that exact
  arithmetic has no room for (\<open>NaN\<close>, \<open>Infinity\<close>, \<open>-Infinity\<close>) are constructors
  of \<open>jsnum\<close>.
\<close>

type_synonym jsstring = "nat list"

definition units :: "string \<Rightarrow> jsstring" where
  "units s = map of_char s"

datatype jsnum = Fin int | NaN | PosInf | NegInf

datatype exn = SyntaxError | TypeError | StoreError | NetworkError

definition isSpace :: "nat \<Rightarrow> bool" where
  \<comment> \<open>the class \<open>\s\<close>, which is also what \<open>trim\<close> strips: white space and line terminators\<close>
  "isSpace c \<longleftrightarrow>
     c = 9 \<or> c = 10 \<or> c = 11 \<or> c = 12 \<or> c = 13 \<or> c = 32 \<or> c = 160 \<or> c = 5760 \<or>
     (8192 \<le> c \<and> c \<le> 8202) \<or> c = 8232 \<or> c = 8233 \<or> c = 8239 \<or> c = 8287 \<or>
     c = 12288 \<or> c = 65279"

definition isDigit :: "nat \<Rightarrow> bool" where
  \<comment> \<open>the class \<open>\d\<close>\<close>
  "isDigit c \<longleftrightarrow> 48 \<le> c \<and> c \<le> 57"

definition isGradeChar :: "nat \<Rightarrow> bool" where
  \<comment> \<open>the class \<open>[A-Z\d*+]\<close> under the flag \<open>i\<close>: ASCII letters of either case, digits, star, plus\<close>
  "isGradeChar c \<longleftrightarrow>
     (65 \<le> c \<and> c \<le> 90) \<or> (97 \<le> c \<and> c \<le> 122) \<or> isDigit c \<or> c = 42 \<or> c = 43"

definition trim :: "jsstring \<Rightarrow> jsstring" where
  "trim s = rev (dropWhile isSpace (rev (dropWhile isSpace s)))"

fun split :: "nat \<Rightarrow> jsstring \<Rightarrow> jsstring list" where
  "split d [] = [[]]"
| "split d (c # cs) =
     (if c = d then [] # split d cs
      else (case split d cs of [] \<Rightarrow> [[c]] | p # ps \<Rightarrow> (c # p) # ps))"

fun join :: "nat \<Rightarrow> jsstring list \<Rightarrow> jsstring" where
  "join d [] = []"
| "join d [x] = x"
| "join d (x # y # ys) = x @ d # join d (y # ys)"

definition upperUnit :: "nat \<Rightarrow> nat" where
  "upperUnit c = (if 97 \<le> c \<and> c \<le> 122 then c - 32 else c)"

definition toUpperCase :: "jsstring \<Rightarrow> jsstring" where
  \<comment> \<open>on the ASCII strings it is applied to here: grade tokens, made of \<open>isGradeChar\<close> units\<close>
  "toUpperCase s = map upperUnit s"

definition parseInt :: "jsstring \<Rightarrow> nat" where
  \<comment> \<open>on the strings it is applied to here: non-empty runs of decimal digits\<close>
  "parseInt ds = fold (\<lambda>c n. 10 * n + (c - 48)) ds 0"

function showNat :: "nat \<Rightarrow> jsstring" where
  "showNat n = (if n < 10 then [48 + n] else showNat (n div 10) @ [48 + n mod 10])"
  by pat_completeness auto
termination
  by (relation "measure id") auto

declare showNat.simps [simp del]

definition showInt :: "int \<Rightarrow> jsstring" where
  "showInt i = (if i < 0 then 45 # showNat (nat (- i)) else showNat (nat i))"

fun showNum :: "jsnum \<Rightarrow> jsstring" where
  "showNum (Fin i) = showInt i"
| "showNum NaN = units ''NaN''"
| "showNum PosInf = units ''Infinity''"
| "showNum NegInf = units ''-Infinity''"

definition jsRound :: "rat \<Rightarrow> int" where
  \<comment> \<open>\<open>Math.round\<close>: the nearest integer, a half rounded up\<close>
  "jsRound x = \<lfloor>x + 1 / 2\<rfloor>"

section \<open>Grade boundaries: parsing\<close>

record 'm boundary =
  grade :: jsstring
  minMark :: 'm
  maxMark :: 'm

record 'm numBoundary = "'m boundary" +
  gradeNum :: nat

text \<open>
  One line is matched against
  \<^verbatim>\<open>/(?:Grade\s+)?([A-Z\d*+]+)\s*:\s*(\d+)(?:\s*-\s*(\d+))?/i\<close>.
  \<open>matchRange\<close> is the optional last group, \<open>matchCore\<close> the pattern without the
  optional prefix, \<open>matchAt\<close> the whole pattern anchored at the start of its argument
  (the prefix is tried first, and given up when the rest fails), and \<open>matchLine\<close> tries
  every start position from the left.  Each greedy run is a \<open>takeWhile\<close>: what the
  pattern asks for after a run is never a unit of the class of the run, so giving units
  back cannot help.
\<close>

definition matchRange :: "jsstring \<Rightarrow> jsstring option" where
  "matchRange s =
     (case dropWhile isSpace s of
        [] \<Rightarrow> None
      | c # r \<Rightarrow>
          if c = 45 then
            (let d = takeWhile isDigit (dropWhile isSpace r)
             in if d = [] then None else Some d)
          else None)"

definition matchCore :: "jsstring \<Rightarrow> (jsstring \<times> jsstring \<times> jsstring option) option" where
  "matchCore s =
     (let g = takeWhile isGradeChar s in
      if g = [] then None
      else (case dropWhile isSpace (dropWhile isGradeChar s) of
              [] \<Rightarrow> None
            | c # r \<Rightarrow>
                if c = 58 then
                  (let r' = dropWhile isSpace r; d = takeWhile isDigit r'
                   in if d = [] then None
                      else Some (g, d, matchRange (dropWhile isDigit r')))
                else None))"

definition matchAt :: "jsstring \<Rightarrow> (jsstring \<times> jsstring \<times> jsstring option) option" where
  "matchAt s =
     (let r = drop 5 s;
          withPrefix =
            (if toUpperCase (take 5 s) = units ''GRADE'' \<and> takeWhile isSpace r \<noteq> []
             then matchCore (dropWhile isSpace r) else None)
      in case withPrefix of Some m \<Rightarrow> Some m | None \<Rightarrow> matchCore s)"

fun matchLine :: "jsstring \<Rightarrow> (jsstring \<times> jsstring \<times> jsstring option) option" where
  "matchLine [] = matchAt []"
| "matchLine (c # cs) =
     (case matchAt (c # cs) of Some m \<Rightarrow> Some m | None \<Rightarrow> matchLine cs)"

definition parseLine :: "jsstring \<Rightarrow> int boundary option" where
  "parseLine line =
     (case matchLine line of
        None \<Rightarrow> None
      | Some (g, d, d') \<Rightarrow>
          (let minMark' = int (parseInt d);
               maxMark' = (case d' of Some e \<Rightarrow> int (parseInt e) | None \<Rightarrow> minMark')
           in Some \<lparr>grade = toUpperCase g, minMark = minMark', maxMark = maxMark'\<rparr>))"

definition textLines :: "jsstring \<Rightarrow> jsstring list" where
  "textLines boundariesText = filter (\<lambda>l. l \<noteq> []) (map trim (split 10 boundariesText))"

definition parseBoundaries :: "jsstring \<Rightarrow> int boundary list" where
  "parseBoundaries boundariesText = List.map_filter parseLine (textLines boundariesText)"

section \<open>Grade boundaries: interpolation\<close>

definition isNumericGrade :: "jsstring \<Rightarrow> bool" where
  \<comment> \<open>\<^verbatim>\<open>/^\d+$/.test(grade)\<close>\<close>
  "isNumericGrade g \<longleftrightarrow> g \<noteq> [] \<and> list_all isDigit g"

definition sortBoundaries :: "int boundary list \<Rightarrow> int boundary list" where
  \<comment> \<open>\<^verbatim>\<open>boundaries.sort((a, b) => b.minMark - a.minMark)\<close>: stable, highest \<open>minMark\<close> first\<close>
  "sortBoundaries bs = sort_key (\<lambda>b. - minMark b) bs"

definition withGradeNum :: "int boundary \<Rightarrow> int numBoundary" where
  \<comment> \<open>\<^verbatim>\<open>{ ...b, gradeNum: parseInt(b.grade) }\<close>\<close>
  "withGradeNum b =
     \<lparr>grade = grade b, minMark = minMark b, maxMark = maxMark b, gradeNum = parseInt (grade b)\<rparr>"

definition newMap :: "('k \<times> 'v) list \<Rightarrow> ('k \<times> 'v) list" where
  \<comment> \<open>\<^verbatim>\<open>new Map(pairs)\<close>: a later pair replaces the value of an equal key, in the place of the first\<close>
  "newMap ps = fold (\<lambda>(k, v) m. AList.update k v m) ps []"

definition maxOf :: "nat \<Rightarrow> nat list \<Rightarrow> nat" where
  "maxOf x xs = fold max xs x"

definition minOf :: "nat \<Rightarrow> nat list \<Rightarrow> nat" where
  "minOf x xs = fold min xs x"

fun nearest :: "nat \<Rightarrow> nat list \<Rightarrow> nat option \<times> nat option \<Rightarrow> nat option \<times> nat option" where
  \<comment> \<open>the loop over \<open>knownGradeNums\<close>, carrying \<open>(gradeAbove, gradeBelow)\<close>\<close>
  "nearest grade' [] ab = ab"
| "nearest grade' (g # gs) (gradeAbove, gradeBelow) =
     nearest grade' gs
       (if g > grade' \<and> (case gradeAbove of None \<Rightarrow> True | Some a \<Rightarrow> g < a)
        then Some g else gradeAbove,
        if g < grade' \<and> (case gradeBelow of None \<Rightarrow> True | Some b \<Rightarrow> g > b)
        then Some g else gradeBelow)"

definition interpolateBetween ::
  "nat \<Rightarrow> nat \<Rightarrow> nat \<Rightarrow> int numBoundary \<Rightarrow> int numBoundary \<Rightarrow> jsnum numBoundary" where
  "interpolateBetween grade' gradeAbove gradeBelow upperBound lowerBound =
     (let gradeDiff = int gradeAbove - int gradeBelow;
          markDiff = minMark upperBound - minMark lowerBound;
          markPerGrade = (of_int markDiff :: rat) / of_int gradeDiff;
          minMark' = jsRound (of_int (minMark upperBound)
                               - of_int (int gradeAbove - int grade') * markPerGrade);
          maxMark' = jsRound (of_int minMark' + markPerGrade - 1)
      in \<lparr>grade = showNat grade', minMark = Fin minMark', maxMark = Fin maxMark', gradeNum = grade'\<rparr>)"

definition extrapolateBelow :: "nat \<Rightarrow> nat \<Rightarrow> int numBoundary \<Rightarrow> jsnum numBoundary" where
  "extrapolateBelow grade' gradeAbove upperBound =
     (let avgMarkPerGrade = minMark upperBound div int gradeAbove;
          minMark' = max 0 (minMark upperBound - (int gradeAbove - int grade') * avgMarkPerGrade);
          maxMark' = minMark upperBound - 1
      in \<lparr>grade = showNat grade', minMark = Fin minMark', maxMark = Fin maxMark', gradeNum = grade'\<rparr>)"

definition extrapolateAbove ::
  "nat \<Rightarrow> nat \<Rightarrow> int numBoundary \<Rightarrow> int option \<Rightarrow> jsnum numBoundary" where
  \<comment> \<open>\<open>totalMarks\<close> is a whole number or \<open>None\<close> (absent: the arithmetic gives \<open>NaN\<close>);
      at \<open>gradeBelow = 10\<close> the quotient is a division by zero\<close>
  "extrapolateAbove grade' gradeBelow lowerBound totalMarks =
     (case totalMarks of
        None \<Rightarrow> \<lparr>grade = showNat grade', minMark = NaN, maxMark = NaN, gradeNum = grade'\<rparr>
      | Some t \<Rightarrow>
          if gradeBelow = 10 then
            (if t = minMark lowerBound \<or> int grade' - int gradeBelow - 1 = 0
             then \<lparr>grade = showNat grade', minMark = NaN, maxMark = NaN, gradeNum = grade'\<rparr>
             else if t > minMark lowerBound
             then \<lparr>grade = showNat grade', minMark = PosInf, maxMark = Fin t, gradeNum = grade'\<rparr>
             else \<lparr>grade = showNat grade', minMark = NegInf, maxMark = NegInf, gradeNum = grade'\<rparr>)
          else
            (let avgMarkPerGrade = (t - minMark lowerBound) div (10 - int gradeBelow);
                 minMark' = maxMark lowerBound + 1
                             + (int grade' - int gradeBelow - 1) * avgMarkPerGrade;
                 maxMark' = min t (minMark' + avgMarkPerGrade - 1)
             in \<lparr>grade = showNat grade', minMark = Fin minMark', maxMark = Fin maxMark',
                  gradeNum = grade'\<rparr>))"

definition interpolateGrade ::
  "nat \<Rightarrow> (nat \<times> int numBoundary) list \<Rightarrow> int option \<Rightarrow> exn + jsnum numBoundary option" where
  \<comment> \<open>\<open>knownGrades.get\<close> of an absent key is \<open>undefined\<close>, and reading its \<open>minMark\<close> throws\<close>
  "interpolateGrade grade' knownGrades totalMarks =
     (let knownGradeNums = sort_key (\<lambda>k. - int k) (map fst knownGrades)
      in case nearest grade' knownGradeNums (None, None) of
           (Some gradeAbove, Some gradeBelow) \<Rightarrow>
             (case (map_of knownGrades gradeAbove, map_of knownGrades gradeBelow) of
                (Some upperBound, Some lowerBound) \<Rightarrow>
                  Inr (Some (interpolateBetween grade' gradeAbove gradeBelow upperBound lowerBound))
              | _ \<Rightarrow> Inl TypeError)
         | (Some gradeAbove, None) \<Rightarrow>
             (case map_of knownGrades gradeAbove of
                Some upperBound \<Rightarrow> Inr (Some (extrapolateBelow grade' gradeAbove upperBound))
              | None \<Rightarrow> Inl TypeError)
         | (None, Some gradeBelow) \<Rightarrow>
             (case map_of knownGrades gradeBelow of
                Some lowerBound \<Rightarrow>
                  Inr (Some (extrapolateAbove grade' gradeBelow lowerBound totalMarks))
              | None \<Rightarrow> Inl TypeError)
         | (None, None) \<Rightarrow> Inr None)"

definition known :: "int numBoundary \<Rightarrow> jsnum numBoundary" where
  \<comment> \<open>a supplied boundary as an element of \<open>allGrades\<close>: the same object, its marks finite\<close>
  "known b =
     \<lparr>grade = grade b, minMark = Fin (minMark b), maxMark = Fin (maxMark b), gradeNum = gradeNum b\<rparr>"

fun fillLoop ::
  "(nat \<times> int numBoundary) list \<Rightarrow> int option \<Rightarrow> nat list \<Rightarrow> exn + jsnum numBoundary list" where
  \<comment> \<open>the body of the \<open>for\<close> loop, over the values \<open>grade\<close> takes, in order\<close>
  "fillLoop knownGrades totalMarks [] = Inr []"
| "fillLoop knownGrades totalMarks (g # gs) =
     (case map_of knownGrades g of
        Some b \<Rightarrow>
          (case fillLoop knownGrades totalMarks gs of
             Inl e \<Rightarrow> Inl e | Inr allGrades \<Rightarrow> Inr (known b # allGrades))
      | None \<Rightarrow>
          (case interpolateGrade g knownGrades totalMarks of
             Inl e \<Rightarrow> Inl e
           | Inr None \<Rightarrow> fillLoop knownGrades totalMarks gs
           | Inr (Some interpolated) \<Rightarrow>
               (case fillLoop knownGrades totalMarks gs of
                  Inl e \<Rightarrow> Inl e | Inr allGrades \<Rightarrow> Inr (interpolated # allGrades))))"

definition gradeRange :: "nat list \<Rightarrow> nat list" where
  \<comment> \<open>\<^verbatim>\<open>for (grade = maxGrade; grade >= minGrade; grade--)\<close>; no grade at all has
      \<open>maxGrade = -Infinity\<close> and no iteration\<close>
  "gradeRange ns =
     (case ns of [] \<Rightarrow> [] | n # ns' \<Rightarrow> rev [minOf n ns' ..< Suc (maxOf n ns')])"

definition knownGradesOf :: "int numBoundary list \<Rightarrow> (nat \<times> int numBoundary) list" where
  \<comment> \<open>\<^verbatim>\<open>new Map(numericBoundaries.map(b => [b.gradeNum, b]))\<close>\<close>
  "knownGradesOf numericBoundaries = newMap (map (\<lambda>b. (gradeNum b, b)) numericBoundaries)"

definition fillGrades ::
  "int numBoundary list \<Rightarrow> int option \<Rightarrow> exn + jsnum numBoundary list" where
  "fillGrades numericBoundaries totalMarks =
     fillLoop (knownGradesOf numericBoundaries) totalMarks
       (gradeRange (map gradeNum numericBoundaries))"

definition formatGrade :: "jsstring \<Rightarrow> jsnum \<Rightarrow> jsnum \<Rightarrow> jsstring" where
  \<comment> \<open>\<^verbatim>\<open>`Grade ${g.grade}: ${g.minMark}-${g.maxMark} marks`\<close>\<close>
  "formatGrade g lo hi =
     units ''Grade '' @ g @ units '': '' @ showNum lo @ units ''-'' @ showNum hi @ units '' marks''"

definition formatGrades :: "jsnum numBoundary list \<Rightarrow> jsstring" where
  "formatGrades gs = join 10 (map (\<lambda>g. formatGrade (grade g) (minMark g) (maxMark g)) gs)"

definition formatBoundaries :: "int boundary list \<Rightarrow> jsstring" where
  "formatBoundaries bs =
     join 10 (map (\<lambda>b. formatGrade (grade b) (Fin (minMark b)) (Fin (maxMark b))) bs)"

definition processGradeBoundaries :: "jsstring \<Rightarrow> int option \<Rightarrow> exn + jsstring option" where
  \<comment> \<open>\<open>Inr None\<close> is \<open>null\<close>\<close>
  "processGradeBoundaries boundariesText totalMarks =
     (if boundariesText = [] \<or> trim boundariesText = [] then Inr None
      else
        (let boundaries = parseBoundaries boundariesText in
         if boundaries = [] then Inr (Some boundariesText)
         else
           (let boundaries = sortBoundaries boundaries in
            if list_all (\<lambda>b. isNumericGrade (grade b)) boundaries then
              (case fillGrades (map withGradeNum boundaries) totalMarks of
                 Inl e \<Rightarrow> Inl e
               | Inr allGrades \<Rightarrow> Inr (Some (formatGrades allGrades)))
            else Inr (Some (formatBoundaries boundaries)))))"

section \<open>Notions used to state the properties of the interpolator\<close>

definition nearestAbove :: "nat \<Rightarrow> nat list \<Rightarrow> nat \<Rightarrow> bool" where
  \<comment> \<open>\<open>a\<close> is the nearest of the grades \<open>ks\<close> above \<open>g\<close>\<close>
  "nearestAbove g ks a \<longleftrightarrow> a \<in> set ks \<and> g < a \<and> (\<forall>k\<in>set ks. g < k \<longrightarrow> a \<le> k)"

definition nearestBelow :: "nat \<Rightarrow> nat list \<Rightarrow> nat \<Rightarrow> bool" where
  \<comment> \<open>\<open>b\<close> is the nearest of the grades \<open>ks\<close> below \<open>g\<close>\<close>
  "nearestBelow g ks b \<longleftrightarrow> b \<in> set ks \<and> b < g \<and> (\<forall>k\<in>set ks. k < g \<longrightarrow> k \<le> b)"











section \<open>Scaling a boundary table\<close>

text \<open>
  An entry of a boundary table is an object with a grade, \<open>minMarks\<close>, perhaps
  \<open>maxMarks\<close>, and, once scaled, the original values.  Its numbers are rationals.
\<close>

record 'g tableEntry =
  tableGrade :: 'g
  minMarks :: rat
  maxMarks :: "rat option"
  originalMin :: "rat option"
  originalMax :: "rat option"

definition scaleBoundaries ::
  "'g tableEntry list \<Rightarrow> rat option \<Rightarrow> rat \<Rightarrow> 'g tableEntry list" where
  \<comment> \<open>\<open>originalMax\<close> is \<open>None\<close> when absent; \<open>b.maxMarks\<close> is falsy when absent or zero\<close>
  "scaleBoundaries boundaries originalMax' targetMax =
     (case originalMax' of
        None \<Rightarrow> boundaries
      | Some m \<Rightarrow>
          if m = 0 then boundaries
          else
            (let scale = targetMax / m
             in map (\<lambda>b.
                  \<lparr>tableGrade = tableGrade b,
                   minMarks = of_int (jsRound (minMarks b * scale)),
                   maxMarks =
                     (case maxMarks b of
                        None \<Rightarrow> None
                      | Some x \<Rightarrow> if x = 0 then None else Some (of_int (jsRound (x * scale)))),
                   originalMin = Some (minMarks b),
                   originalMax = maxMarks b\<rparr>) boundaries))"

section \<open>Extracting the generated code\<close>

definition startsWith :: "jsstring \<Rightarrow> jsstring \<Rightarrow> bool" where
  "startsWith s p \<longleftrightarrow> take (length p) s = p"

definition fence :: jsstring where
  "fence = [96, 96, 96]"

definition dropTag :: "jsstring \<Rightarrow> jsstring" where
  \<comment> \<open>\<^verbatim>\<open>(?:javascript|js)?\<close>: the first alternative that matches, else nothing\<close>
  "dropTag s =
     (if startsWith s (units ''javascript'') then drop 10 s
      else if startsWith s (units ''js'') then drop 2 s
      else s)"

fun beforeFence :: "jsstring \<Rightarrow> jsstring option" where
  \<comment> \<open>\<^verbatim>\<open>([\s\S]*?)```\<close>: the shortest run of units that a fence follows\<close>
  "beforeFence [] = None"
| "beforeFence (c # cs) =
     (if startsWith (c # cs) fence then Some []
      else map_option (\<lambda>r. c # r) (beforeFence cs))"

definition matchFenceAt :: "jsstring \<Rightarrow> jsstring option" where
  \<comment> \<open>the first pattern anchored at the start of \<open>s\<close>; the tag and the white space hold no
      backquote, so a shorter tag or less white space finds a closing fence only if this does\<close>
  "matchFenceAt s =
     (if startsWith s fence then beforeFence (dropWhile isSpace (dropTag (drop 3 s)))
      else None)"

fun matchFence :: "jsstring \<Rightarrow> jsstring option" where
  \<comment> \<open>\<^verbatim>\<open>text.match(/```(?:javascript|js)?\s*([\s\S]*?)```/)\<close>: group 1 of the leftmost match\<close>
  "matchFence [] = None"
| "matchFence (c # cs) =
     (case matchFenceAt (c # cs) of Some m \<Rightarrow> Some m | None \<Rightarrow> matchFence cs)"

definition configMarker :: jsstring where
  "configMarker = units ''window.ESSAY_CONFIG''"

definition matchConfigAt :: "jsstring \<Rightarrow> jsstring option" where
  \<comment> \<open>the second pattern anchored at the start of \<open>s\<close>: the greedy \<^verbatim>\<open>[\s\S]*\<close> gives units
      back until the last closing brace, and \<^verbatim>\<open>;?\<close> takes a semicolon that follows it\<close>
  "matchConfigAt s =
     (if startsWith s configMarker then
        (let r = drop (length configMarker) s;
             after = rev (takeWhile (\<lambda>c. c \<noteq> 125) (rev r));
             upto = rev (dropWhile (\<lambda>c. c \<noteq> 125) (rev r))
         in if upto = [] then None
            else Some (configMarker @ upto @ (if startsWith after [59] then [59] else [])))
      else None)"

fun matchConfig :: "jsstring \<Rightarrow> jsstring option" where
  \<comment> \<open>\<^verbatim>\<open>text.match(/(window\.ESSAY_CONFIG[\s\S]*};?)/)\<close>: group 1 of the leftmost match\<close>
  "matchConfig [] = None"
| "matchConfig (c # cs) =
     (case matchConfigAt (c # cs) of Some m \<Rightarrow> Some m | None \<Rightarrow> matchConfig cs)"

definition extractJavaScript :: "jsstring \<Rightarrow> jsstring" where
  "extractJavaScript text =
     (case matchFence text of
        Some m \<Rightarrow> trim m
      | None \<Rightarrow>
          (case matchConfig text of
             Some m \<Rightarrow> trim m
           | None \<Rightarrow> trim text))"

section \<open>The job store and the handlers\<close>

text \<open>
  The blob store maps a job id to a job record.  A record is an object; its fields are the
  ones the handlers write, each absent or present.  \<open>'i\<close> is the type of the caller's input
  and \<open>'u\<close> the type of an error payload of the generation service.  An environment gives
  what an invocation takes from outside: the API key, whether the store's \<open>get\<close> and
  \<open>setJSON\<close> reject, what building the messages and the request come to, and the clock.
\<close>

datatype jobStatus = StatusProcessing | StatusCompleted | StatusError

datatype 'u errorField =
    NotConfigured  \<comment> \<open>the text \<^verbatim>\<open>ANTHROPIC_API_KEY not configured\<close>\<close>
  | Upstream 'u    \<comment> \<open>\<open>claudeData.error\<close>\<close>
  | Thrown exn     \<comment> \<open>\<open>error.message\<close> of a caught exception\<close>

record ('i, 'u) job =
  status :: jobStatus
  input :: "'i option"
  config :: "jsstring option"
  error :: "'u errorField option"
  timestamp :: "nat option"

type_synonym ('i, 'u) store = "jsstring \<rightharpoonup> ('i, 'u) job"

datatype 'u claudeData =
    ClaudeError 'u                 \<comment> \<open>an object whose \<open>error\<close> is truthy\<close>
  | ClaudeContent "jsstring option"  \<comment> \<open>\<open>content[0].text\<close>: a string, or reading it throws\<close>

record ('i, 'u) env =
  apiKey :: "jsstring option"
  getRejects :: bool
  setRejects :: bool
  callClaude :: "'i \<Rightarrow> exn + 'u claudeData"
  now :: nat

definition truthy :: "jsstring option \<Rightarrow> bool" where
  \<comment> \<open>of a value that is a string or absent: present and not empty\<close>
  "truthy v \<longleftrightarrow> (case v of None \<Rightarrow> False | Some s \<Rightarrow> s \<noteq> [])"

definition storeGet ::
  "('i, 'u) env \<Rightarrow> ('i, 'u) store \<Rightarrow> jsstring option \<Rightarrow> exn + ('i, 'u) job option" where
  \<comment> \<open>\<^verbatim>\<open>await store.get(jobId, { type: 'json' })\<close>: a rejection, or the record or \<open>null\<close>\<close>
  "storeGet e st jobId =
     (if getRejects e then Inl StoreError
      else Inr (case jobId of None \<Rightarrow> None | Some k \<Rightarrow> st k))"

definition setJSON ::
  "('i, 'u) env \<Rightarrow> ('i, 'u) store \<Rightarrow> jsstring \<Rightarrow> ('i, 'u) job \<Rightarrow> exn + ('i, 'u) store" where
  \<comment> \<open>\<^verbatim>\<open>await store.setJSON(jobId, record)\<close>: a rejection, or the store with the record
      under the key, in place of what was there\<close>
  "setJSON e st k r = (if setRejects e then Inl StoreError else Inr (st(k \<mapsto> r)))"

definition errorRecord :: "'u errorField \<Rightarrow> ('i, 'u) job" where
  \<comment> \<open>\<^verbatim>\<open>{ status: 'error', error: ... }\<close>\<close>
  "errorRecord d =
     \<lparr>status = StatusError, input = None, config = None, error = Some d, timestamp = None\<rparr>"

definition completedRecord :: "jsstring \<Rightarrow> nat \<Rightarrow> ('i, 'u) job" where
  \<comment> \<open>\<^verbatim>\<open>{ status: 'completed', config: config, timestamp: Date.now() }\<close>\<close>
  "completedRecord c t =
     \<lparr>status = StatusCompleted, input = None, config = Some c, error = None, timestamp = Some t\<rparr>"

definition written :: "exn + ('i, 'u) store \<Rightarrow> ('i, 'u) store \<Rightarrow> exn option \<times> ('i, 'u) store" where
  \<comment> \<open>the outcome of a step that awaits \<open>setJSON\<close> and returns\<close>
  "written w st = (case w of Inl x \<Rightarrow> (Some x, st) | Inr st' \<Rightarrow> (None, st'))"

definition tryBlock ::
  "('i, 'u) env \<Rightarrow> ('i, 'u) store \<Rightarrow> jsstring option \<Rightarrow> exn option \<times> ('i, 'u) store" where
  \<comment> \<open>the \<open>try\<close> block once \<open>jobId\<close> and \<open>store\<close> are set: the exception it ends with, if
      any, and the store it leaves\<close>
  "tryBlock e st jobId =
     (case storeGet e st jobId of
        Inl x \<Rightarrow> (Some x, st)
      | Inr None \<Rightarrow> (None, st)
      | Inr (Some j) \<Rightarrow>
          (case (jobId, input j) of
             (Some k, Some body) \<Rightarrow>
               if \<not> truthy (apiKey e) then written (setJSON e st k (errorRecord NotConfigured)) st
               else
                 (case callClaude e body of
                    Inl x \<Rightarrow> (Some x, st)
                  | Inr (ClaudeError u) \<Rightarrow> written (setJSON e st k (errorRecord (Upstream u))) st
                  | Inr (ClaudeContent None) \<Rightarrow> (Some TypeError, st)
                  | Inr (ClaudeContent (Some text)) \<Rightarrow>
                      written (setJSON e st k (completedRecord (extractJavaScript text) (now e))) st)
           | _ \<Rightarrow> (Some TypeError, st)))"

definition catchBlock ::
  "('i, 'u) env \<Rightarrow> ('i, 'u) store \<Rightarrow> jsstring option \<Rightarrow> exn \<Rightarrow> ('i, 'u) store" where
  \<comment> \<open>\<^verbatim>\<open>if (store && jobId) { try { await store.setJSON(...) } catch (e) { } }\<close>\<close>
  "catchBlock e st jobId x =
     (case jobId of
        None \<Rightarrow> st
      | Some k \<Rightarrow>
          if k = [] then st
          else (case setJSON e st k (errorRecord (Thrown x)) of Inl _ \<Rightarrow> st | Inr st' \<Rightarrow> st'))"

datatype workerEvent =
    BadBody                 \<comment> \<open>\<open>JSON.parse(event.body)\<close> or the destructuring throws\<close>
  | Body "jsstring option"   \<comment> \<open>the \<open>jobId\<close> of the parsed body, if it has one\<close>

definition processJob ::
  "('i, 'u) env \<Rightarrow> ('i, 'u) store \<Rightarrow> workerEvent \<Rightarrow> exn + ('i, 'u) store" where
  \<comment> \<open>\<open>exports.handler\<close> of the worker: \<open>Inl\<close> would be an exception leaving the handler\<close>
  "processJob e st ev =
     (case ev of
        BadBody \<Rightarrow> Inr st
      | Body jobId \<Rightarrow>
          (case tryBlock e st jobId of
             (None, st') \<Rightarrow> Inr st'
           | (Some x, st') \<Rightarrow> Inr (catchBlock e st' jobId x)))"

record pollEvent =
  httpMethod :: jsstring
  jobIdParam :: "jsstring option"

datatype ('i, 'u) responseBody =
    ErrorBody jsstring          \<comment> \<open>\<^verbatim>\<open>{ error: text }\<close>\<close>
  | ThrownBody exn              \<comment> \<open>\<^verbatim>\<open>{ error: error.message }\<close>\<close>
  | ProcessingBody              \<comment> \<open>\<^verbatim>\<open>{ status: 'processing' }\<close>\<close>
  | JobBody "('i, 'u) job"      \<comment> \<open>the stored record\<close>

record ('i, 'u) response =
  statusCode :: nat
  contentType :: "jsstring option"
  body :: "('i, 'u) responseBody"

definition checkJob :: "('i, 'u) env \<Rightarrow> ('i, 'u) store \<Rightarrow> pollEvent \<Rightarrow> ('i, 'u) response" where
  \<comment> \<open>\<open>exports.handler\<close> of the poll endpoint; \<open>body\<close> is the value given to \<open>JSON.stringify\<close>\<close>
  "checkJob e st ev =
     (if httpMethod ev \<noteq> units ''GET'' then
        \<lparr>statusCode = 405, contentType = None, body = ErrorBody (units ''Method not allowed'')\<rparr>
      else if \<not> truthy (jobIdParam ev) then
        \<lparr>statusCode = 400, contentType = None, body = ErrorBody (units ''Missing jobId'')\<rparr>
      else
        (case storeGet e st (jobIdParam ev) of
           Inl x \<Rightarrow> \<lparr>statusCode = 500, contentType = None, body = ThrownBody x\<rparr>
         | Inr None \<Rightarrow>
             \<lparr>statusCode = 200, contentType = Some (units ''application/json''),
              body = ProcessingBody\<rparr>
         | Inr (Some result) \<Rightarrow>
             \<lparr>statusCode = 200, contentType = Some (units ''application/json''),
              body = JobBody result\<rparr>))"

section \<open>Notions used to state the properties of the extraction\<close>



section \<open>Rounding\<close>

lemma jsRound_add_int: "jsRound (of_int m + x) = m + jsRound x"
  by (simp add: jsRound_def add.assoc)




section \<open>The search for the nearest known grades\<close>







section \<open>The map of known grades and the range of the loop\<close>






section \<open>Interpolation inside the range of known grades\<close>


lemma nearestAbove_sort [simp]: "nearestAbove g (sort_key f ks) a = nearestAbove g ks a"
  by (simp add: nearestAbove_def)

lemma nearestBelow_sort [simp]: "nearestBelow g (sort_key f ks) b = nearestBelow g ks b"
  by (simp add: nearestBelow_def)





lemmas eval_defs =
  units_def isSpace_def isDigit_def isGradeChar_def trim_def upperUnit_def toUpperCase_def
  parseInt_def matchRange_def matchCore_def matchAt_def parseLine_def textLines_def
  parseBoundaries_def List.map_filter_def Let_def

section \<open>Lines and parsed boundaries\<close>

lemma trim_Nil_iff: "trim s = [] \<longleftrightarrow> (\<forall>c\<in>set s. isSpace c)"
proof
  assume "trim s = []"
  then have all: "\<forall>c\<in>set (dropWhile isSpace s). isSpace c"
    by (simp add: trim_def)
  have "dropWhile isSpace s = []"
  proof (rule ccontr)
    assume ne: "dropWhile isSpace s \<noteq> []"
    then have "\<not> isSpace (hd (dropWhile isSpace s))" by (rule hd_dropWhile)
    moreover have "hd (dropWhile isSpace s) \<in> set (dropWhile isSpace s)" using ne by simp
    ultimately show False using all by blast
  qed
  then show "\<forall>c\<in>set s. isSpace c" by simp
next
  assume "\<forall>c\<in>set s. isSpace c"
  then show "trim s = []" by (auto simp: trim_def dest: set_dropWhileD)
qed



lemma list_all_sortBoundaries [simp]: "list_all P (sortBoundaries bs) = list_all P bs"
  by (simp add: sortBoundaries_def list_all_iff)

lemma sortBoundaries_Nil_iff [simp]: "sortBoundaries bs = [] \<longleftrightarrow> bs = []"
proof -
  have "length (sortBoundaries bs) = length bs" by (simp add: sortBoundaries_def)
  then show ?thesis by (metis length_0_conv)
qed

section \<open>Text from which no boundary parses\<close>

text \<open>
  C3 (as the code has it).  When no line of the text yields a boundary,
  \<open>processGradeBoundaries\<close> does not throw; it returns \<open>null\<close> when the text is empty or
  blank, and otherwise the text itself, unchanged.
\<close>
theorem no_boundaries_parsed:
  "parseBoundaries text = [] \<Longrightarrow>
     processGradeBoundaries text totalMarks = Inr (if trim text = [] then None else Some text)"
  by (auto simp: processGradeBoundaries_def trim_Nil_iff)

theorem no_boundaries_parsed_witness:
  "parseBoundaries (units ''see the attached table'') = [] \<and>
   processGradeBoundaries (units ''see the attached table'') None
     = Inr (Some (units ''see the attached table''))"
  using no_boundaries_parsed[of "units ''see the attached table''" None]
  by (simp add: eval_defs)

text \<open>
  The text \<open>hello\<close> yields no boundary, and the result is that text: neither \<open>null\<close>
  nor the empty string.
\<close>

theorem unparsed_text_returned_counterexample:
  "parseBoundaries (units ''hello'') = [] \<and>
   processGradeBoundaries (units ''hello'') (Some 40) = Inr (Some (units ''hello'')) \<and>
   units ''hello'' \<noteq> []"
  by (simp add: processGradeBoundaries_def eval_defs)

section \<open>Letter grades\<close>





section \<open>The interpolated values\<close>



section \<open>The known grades of a text\<close>








section \<open>The extrapolation branches are out of reach\<close>



section \<open>Descent of the interpolated marks\<close>

lemma jsRound_of_int: "jsRound (of_int m) = m"
  using jsRound_add_int[of m 0] by (simp add: jsRound_def floor_eq_iff)














section \<open>Numeric grades: the complete table\<close>



lemma gradeNum_withGradeNum:
  "map gradeNum (map withGradeNum (sortBoundaries bs)) = map (\<lambda>b. parseInt (grade b)) (sortBoundaries bs)"
  by (simp add: withGradeNum_def)












section \<open>Scaling by the identity\<close>

lemma jsRound_Ints: "x \<in> \<int> \<Longrightarrow> of_int (jsRound x) = x"
  by (auto simp: Ints_def jsRound_of_int)

text \<open>
  C5.  Scaling a table from a nonzero maximum \<open>M\<close> to the same maximum \<open>M\<close> returns
  entries with the \<open>minMarks\<close> of the input, when these are integers.
\<close>

theorem scaleBoundaries_identity:
  assumes "M \<noteq> 0" and "\<forall>b\<in>set boundaries. minMarks b \<in> \<int>"
  shows "map minMarks (scaleBoundaries boundaries (Some M) M) = map minMarks boundaries"
  using assms by (simp add: scaleBoundaries_def jsRound_Ints)

theorem scaleBoundaries_identity_witness:
  "(80::rat) \<noteq> 0
   \<and> minMarks \<lparr>tableGrade = units ''9'', minMarks = 64, maxMarks = None,
                 originalMin = None, originalMax = None\<rparr> \<in> \<int>
   \<and> minMarks \<lparr>tableGrade = units ''8'', minMarks = 55, maxMarks = Some 63,
                 originalMin = None, originalMax = None\<rparr> \<in> \<int>
   \<and> map minMarks (scaleBoundaries
         [\<lparr>tableGrade = units ''9'', minMarks = 64, maxMarks = None,
            originalMin = None, originalMax = None\<rparr>,
          \<lparr>tableGrade = units ''8'', minMarks = 55, maxMarks = Some 63,
            originalMin = None, originalMax = None\<rparr>] (Some 80) 80) = [64, 55]"
  using scaleBoundaries_identity[of 80
      "[\<lparr>tableGrade = units ''9'', minMarks = 64, maxMarks = None,
            originalMin = None, originalMax = None\<rparr>,
          \<lparr>tableGrade = units ''8'', minMarks = 55, maxMarks = Some 63,
            originalMin = None, originalMax = None\<rparr>]"]
  by simp

section \<open>The poll endpoint\<close>

text \<open>
  C8.  The poll endpoint answers 405 to a method other than GET; 400 to a GET with no
  \<open>jobId\<close> (absent or empty); and, when the store answers the lookup, 200 with the body
  \<open>{status: 'processing'}\<close> to a GET whose job id has no stored record, and 200 with the
  stored record itself to a GET whose job id has one.
\<close>
theorem checkJob_responses:
  "(httpMethod ev \<noteq> units ''GET'' \<longrightarrow> statusCode (checkJob e st ev) = 405)
   \<and> (httpMethod ev = units ''GET'' \<and> (jobIdParam ev = None \<or> jobIdParam ev = Some [])
        \<longrightarrow> statusCode (checkJob e st ev) = 400)
   \<and> (httpMethod ev = units ''GET'' \<and> jobIdParam ev = Some k \<and> k \<noteq> [] \<and> \<not> getRejects e
        \<and> st k = None
        \<longrightarrow> statusCode (checkJob e st ev) = 200 \<and> body (checkJob e st ev) = ProcessingBody)
   \<and> (httpMethod ev = units ''GET'' \<and> jobIdParam ev = Some k \<and> k \<noteq> [] \<and> \<not> getRejects e
        \<and> st k = Some r
        \<longrightarrow> statusCode (checkJob e st ev) = 200 \<and> body (checkJob e st ev) = JobBody r)"
  by (auto simp: checkJob_def truthy_def storeGet_def split: option.splits)

theorem checkJob_responses_witness:
  "statusCode (checkJob
      \<lparr>apiKey = None, getRejects = False, setRejects = False,
       callClaude = (\<lambda>i::nat. Inl NetworkError :: exn + nat claudeData), now = 0\<rparr>
      Map.empty \<lparr>httpMethod = units ''POST'', jobIdParam = None\<rparr>) = 405
   \<and> statusCode (checkJob
      \<lparr>apiKey = None, getRejects = False, setRejects = False,
       callClaude = (\<lambda>i::nat. Inl NetworkError :: exn + nat claudeData), now = 0\<rparr>
      Map.empty \<lparr>httpMethod = units ''GET'', jobIdParam = None\<rparr>) = 400
   \<and> body (checkJob
      \<lparr>apiKey = None, getRejects = False, setRejects = False,
       callClaude = (\<lambda>i::nat. Inl NetworkError :: exn + nat claudeData), now = 0\<rparr>
      Map.empty \<lparr>httpMethod = units ''GET'', jobIdParam = Some (units ''job_1'')\<rparr>) = ProcessingBody
   \<and> body (checkJob
      \<lparr>apiKey = None, getRejects = False, setRejects = False,
       callClaude = (\<lambda>i::nat. Inl NetworkError :: exn + nat claudeData), now = 0\<rparr>
      [units ''job_1'' \<mapsto> \<lparr>status = StatusProcessing, input = Some 7, config = None,
                              error = None, timestamp = Some 1\<rparr>]
      \<lparr>httpMethod = units ''GET'', jobIdParam = Some (units ''job_1'')\<rparr>)
     = JobBody \<lparr>status = StatusProcessing, input = Some 7, config = None,
                 error = None, timestamp = Some 1\<rparr>"
proof -
  let ?e = "\<lparr>apiKey = None, getRejects = False, setRejects = False,
       callClaude = (\<lambda>i::nat. Inl NetworkError :: exn + nat claudeData), now = 0\<rparr>"
  let ?r = "\<lparr>status = StatusProcessing, input = Some (7::nat), config = None,
              error = None :: nat errorField option, timestamp = Some 1\<rparr>"
  have 1: "httpMethod \<lparr>httpMethod = units ''POST'', jobIdParam = None\<rparr> \<noteq> units ''GET''"
    by (simp add: units_def)
  have k: "units ''job_1'' \<noteq> []" by (simp add: units_def)
  note a = checkJob_responses[of "\<lparr>httpMethod = units ''POST'', jobIdParam = None\<rparr>" ?e Map.empty
      "[]" undefined, THEN conjunct1, THEN mp, OF 1]
  note b = checkJob_responses[of "\<lparr>httpMethod = units ''GET'', jobIdParam = None\<rparr>" ?e Map.empty
      "[]" undefined, THEN conjunct2, THEN conjunct1, THEN mp]
  note c = checkJob_responses[of "\<lparr>httpMethod = units ''GET'', jobIdParam = Some (units ''job_1'')\<rparr>" ?e
      Map.empty "units ''job_1''" undefined, THEN conjunct2, THEN conjunct2, THEN conjunct1, THEN mp]
  note d = checkJob_responses[of "\<lparr>httpMethod = units ''GET'', jobIdParam = Some (units ''job_1'')\<rparr>" ?e
      "[units ''job_1'' \<mapsto> ?r]" "units ''job_1''" ?r,
      THEN conjunct2, THEN conjunct2, THEN conjunct2, THEN mp]
  from a b c d k show ?thesis by simp
qed

section \<open>The worker\<close>

text \<open>
  C9.  A worker invocation whose job id names no stored record (the lookup answers
  \<open>null\<close>), or whose body yields no job id at all, ends without an exception and leaves the
  store as it was.
\<close>
theorem processJob_unknown_job:
  "processJob e st BadBody = Inr st
   \<and> (\<not> getRejects e \<and> (\<forall>k. jobId = Some k \<longrightarrow> st k = None)
        \<longrightarrow> processJob e st (Body jobId) = Inr st)"
  by (auto simp: processJob_def tryBlock_def storeGet_def split: option.splits)

theorem processJob_unknown_job_witness:
  "\<not> getRejects \<lparr>apiKey = Some (units ''key''), getRejects = False, setRejects = False,
       callClaude = (\<lambda>i::nat. Inl NetworkError :: exn + nat claudeData), now = 0\<rparr>
   \<and> [units ''job_1'' \<mapsto> \<lparr>status = StatusProcessing, input = Some (7::nat), config = None,
                            error = None :: nat errorField option, timestamp = Some 1\<rparr>]
         (units ''job_2'') = None
   \<and> processJob \<lparr>apiKey = Some (units ''key''), getRejects = False, setRejects = False,
       callClaude = (\<lambda>i::nat. Inl NetworkError :: exn + nat claudeData), now = 0\<rparr>
       [units ''job_1'' \<mapsto> \<lparr>status = StatusProcessing, input = Some 7, config = None,
                              error = None, timestamp = Some 1\<rparr>]
       (Body (Some (units ''job_2'')))
     = Inr [units ''job_1'' \<mapsto> \<lparr>status = StatusProcessing, input = Some 7, config = None,
                              error = None, timestamp = Some 1\<rparr>]"
  using processJob_unknown_job[of
      "\<lparr>apiKey = Some (units ''key''), getRejects = False, setRejects = False,
       callClaude = (\<lambda>i::nat. Inl NetworkError :: exn + nat claudeData), now = 0\<rparr>"
      "[units ''job_1'' \<mapsto> \<lparr>status = StatusProcessing, input = Some 7, config = None,
                              error = None, timestamp = Some 1\<rparr>]"
      "Some (units ''job_2'')"]
  by (simp add: units_def)

text \<open>
  C4 (as the code has it).  When the job is found and the store takes the write, the worker
  ends by replacing the whole stored record: the new record is \<open>{status: 'error', error}\<close>
  or \<open>{status: 'completed', config, timestamp}\<close>, it has no \<open>input\<close> field, and the
  records under the other job ids are as before.
\<close>
theorem processJob_terminal_write:
  assumes "st k = Some j" and "k \<noteq> []" and "\<not> getRejects e" and "\<not> setRejects e"
  shows "\<exists>r. processJob e st (Body (Some k)) = Inr (st(k \<mapsto> r))
           \<and> input r = None
           \<and> ((\<exists>d. r = errorRecord d) \<or> (\<exists>text. r = completedRecord (extractJavaScript text) (now e)))"
proof -
  have e: "input (errorRecord d :: ('a, 'b) job) = None" for d :: "'b errorField"
    by (simp add: errorRecord_def)
  have c: "input (completedRecord t n :: ('a, 'b) job) = None" for t n
    by (simp add: completedRecord_def)
  show ?thesis
    using assms
    by (auto simp: processJob_def tryBlock_def catchBlock_def storeGet_def setJSON_def written_def e c
        split: option.splits sum.splits claudeData.splits)
qed

theorem processJob_terminal_write_witness:
  "[units ''job_1'' \<mapsto> \<lparr>status = StatusProcessing, input = Some (7::nat), config = None,
                          error = None :: nat errorField option, timestamp = Some 1\<rparr>]
     (units ''job_1'')
     = Some \<lparr>status = StatusProcessing, input = Some 7, config = None, error = None,
             timestamp = Some 1\<rparr>
   \<and> units ''job_1'' \<noteq> []
   \<and> \<not> getRejects \<lparr>apiKey = None, getRejects = False, setRejects = False,
         callClaude = (\<lambda>i::nat. Inl NetworkError :: exn + nat claudeData), now = 5\<rparr>
   \<and> \<not> setRejects \<lparr>apiKey = None, getRejects = False, setRejects = False,
         callClaude = (\<lambda>i::nat. Inl NetworkError :: exn + nat claudeData), now = 5\<rparr>
   \<and> (\<exists>r. processJob \<lparr>apiKey = None, getRejects = False, setRejects = False,
               callClaude = (\<lambda>i::nat. Inl NetworkError :: exn + nat claudeData), now = 5\<rparr>
             [units ''job_1'' \<mapsto> \<lparr>status = StatusProcessing, input = Some 7, config = None,
                                    error = None, timestamp = Some 1\<rparr>]
             (Body (Some (units ''job_1'')))
           = Inr ([units ''job_1'' \<mapsto> \<lparr>status = StatusProcessing, input = Some 7, config = None,
                                    error = None, timestamp = Some 1\<rparr>](units ''job_1'' \<mapsto> r))
         \<and> input r = None)"
proof -
  let ?e = "\<lparr>apiKey = None, getRejects = False, setRejects = False,
         callClaude = (\<lambda>i::nat. Inl NetworkError :: exn + nat claudeData), now = 5\<rparr>"
  let ?j = "\<lparr>status = StatusProcessing, input = Some (7::nat), config = None,
             error = None :: nat errorField option, timestamp = Some 1\<rparr>"
  have 1: "[units ''job_1'' \<mapsto> ?j] (units ''job_1'') = Some ?j" by simp
  have 2: "units ''job_1'' \<noteq> []" by (simp add: units_def)
  have 3: "\<not> getRejects ?e" by simp
  have 4: "\<not> setRejects ?e" by simp
  from processJob_terminal_write[of "[units ''job_1'' \<mapsto> ?j]" "units ''job_1''" ?j ?e, OF 1 2 3 4]
  have "\<exists>r. processJob ?e [units ''job_1'' \<mapsto> ?j] (Body (Some (units ''job_1'')))
           = Inr ([units ''job_1'' \<mapsto> ?j](units ''job_1'' \<mapsto> r)) \<and> input r = None"
    by blast
  with 1 2 3 4 show ?thesis by (intro conjI)
qed

text \<open>
  A job created with the input \<open>7\<close> is processed with a key configured and an answer of the
  service that holds the text \<open>x\<close>.  The record stored afterwards is the completed record,
  and it has no \<open>input\<close>.
\<close>

theorem input_dropped_counterexample:
  "processJob \<lparr>apiKey = Some (units ''key''), getRejects = False, setRejects = False,
               callClaude = (\<lambda>i::nat. Inr (ClaudeContent (Some (units ''x'')) :: nat claudeData)),
               now = 5\<rparr>
     [units ''job_1'' \<mapsto> \<lparr>status = StatusProcessing, input = Some 7, config = None,
                            error = None, timestamp = Some 1\<rparr>]
     (Body (Some (units ''job_1'')))
     = Inr [units ''job_1'' \<mapsto> \<lparr>status = StatusCompleted, input = None,
                                  config = Some (extractJavaScript (units ''x'')), error = None,
                                  timestamp = Some 5\<rparr>]
   \<and> input \<lparr>status = StatusProcessing, input = Some (7::nat), config = None,
             error = None :: nat errorField option, timestamp = Some (1::nat)\<rparr>
       \<noteq> input \<lparr>status = StatusCompleted, input = None,
                 config = Some (extractJavaScript (units ''x'')),
                 error = None :: nat errorField option, timestamp = Some 5\<rparr>"
  by (simp add: processJob_def tryBlock_def storeGet_def setJSON_def written_def truthy_def
      completedRecord_def units_def)

section \<open>Extraction of the generated code\<close>
























end
